theory Spec2Isabelle
  imports Complex_Main "HOL-Library.Sublist"
begin

section \<open>Numbers\<close>

text \<open>
  The program computes with \<open>float\<close> and \<open>double\<close>. Both are modelled as \<open>real\<close>: every
  arithmetic operation is exact, there is no rounding when a \<open>double\<close> expression is stored
  in a \<open>float\<close>, and there are no infinities, NaNs or signed zeros. The C type \<open>int\<close> is
  modelled as \<open>int\<close>; a conversion whose result does not fit 32 bits (undefined in C++) is
  outside the model.
\<close>

definition M_PI :: real where
  "M_PI = pi"

text \<open>The conversion \<open>int(x)\<close> and the cast \<open>(int)x\<close> discard the fractional part.\<close>

definition to_int :: "real \<Rightarrow> int" where
  "to_int x = (if 0 \<le> x then \<lfloor>x\<rfloor> else \<lceil>x\<rceil>)"

text \<open>
  Three operations of the program can leave the finite numbers: \<open>sqrt\<close> of a negative
  number and \<open>acos\<close> outside \<open>[-1, 1]\<close> give NaN, and a division by zero gives an infinity
  or NaN. Their results are \<open>real option\<close>, with \<open>None\<close> for a value that is not finite.
\<close>

definition sqrt_c :: "real \<Rightarrow> real option" where
  "sqrt_c v = (if v < 0 then None else Some (sqrt v))"

definition acos_c :: "real \<Rightarrow> real option" where
  "acos_c v = (if v < - 1 \<or> 1 < v then None else Some (arccos v))"

definition fdiv :: "real \<Rightarrow> real \<Rightarrow> real option" where
  "fdiv a b = (if b = 0 then None else Some (a / b))"

text \<open>The C library's \<open>atan2\<close> on finite arguments.\<close>

definition atan2 :: "real \<Rightarrow> real \<Rightarrow> real" where
  "atan2 b a =
     (if a > 0 then arctan (b / a)
      else if a < 0 \<and> b \<ge> 0 then arctan (b / a) + pi
      else if a < 0 then arctan (b / a) - pi
      else if b > 0 then pi / 2
      else if b < 0 then - (pi / 2)
      else 0)"

section \<open>Angle reduction and the frame transform\<close>

text \<open>\<open>VGrisu::redang\<close>: "reduce large angle to intervall 0, 2*pi".\<close>

definition redang :: "real \<Rightarrow> real" where
  "redang iangle =
     (if iangle \<ge> 0
      then iangle - of_int (to_int (iangle / (2 * M_PI))) * 2 * M_PI
      else 2 * M_PI + iangle + of_int (to_int (iangle / (2 * M_PI))) * 2 * M_PI)"

text \<open>
  \<open>VGrisu::transformCoord\<close> takes its three arguments by reference and overwrites them.
  The model takes the three values and returns the three new ones.
\<close>

definition transformCoord :: "real \<Rightarrow> real \<Rightarrow> real \<Rightarrow> real \<times> real \<times> real" where
  "transformCoord az x y =
     (let az = redang (1.5 * M_PI - redang az);
          i_y = y;
          y = -1 * x;
          x = -1 * i_y
      in (az, x, y))"

text \<open>
  The same body over a store of \<open>float\<close> variables, for call sites that pass the same
  variable twice: \<open>writeRunHeader\<close> calls \<open>transformCoord( az, x, x )\<close>.
\<close>

type_synonym store = "nat \<Rightarrow> real"

definition transformCoord_ref :: "nat \<Rightarrow> nat \<Rightarrow> nat \<Rightarrow> store \<Rightarrow> store" where
  "transformCoord_ref az x y h =
     (let h = h(az := redang (1.5 * M_PI - redang (h az)));
          i_y = h y;
          h = h(y := -1 * h x);
          h = h(x := -1 * i_y)
      in h)"

section \<open>Output streams\<close>

text \<open>
  The part of a \<open>std::ostream\<close> that the program uses: the format flags it sets
  (\<open>ios::fixed\<close>, \<open>ios::right\<close>, \<open>ios::showpos\<close>), the precision, the field width, whether
  a file is attached, whether an error bit is set, and what has been written so far.
  The flags \<open>ios::left\<close> and \<open>ios::internal\<close> are never set by the program, so a field is
  always padded on its left.
\<close>

record fmt =
  fixed :: bool
  right :: bool
  showpos :: bool
  precision :: nat
  width :: nat

text \<open>
  What has been written is a sequence of characters and of floating-point fields. The
  digits of a floating-point field are produced by the C++ library; the model records the
  value together with the format state under which it was inserted. \<open>NonFinite\<close> is a
  field whose value is not a finite number (the library prints \<open>nan\<close> or \<open>inf\<close>).
\<close>

datatype item = Ch char | Dbl fmt real | NonFinite fmt

record ostream = fmt +
  is_open :: bool
  failed :: bool
  written :: "item list"

definition fmt_of :: "ostream \<Rightarrow> fmt" where
  "fmt_of os = \<lparr>fixed = fixed os, right = right os, showpos = showpos os,
                precision = precision os, width = width os\<rparr>"

text \<open>The text of an output, for a given rendering of the floating-point fields.\<close>

fun render_item :: "(fmt \<Rightarrow> real option \<Rightarrow> string) \<Rightarrow> item \<Rightarrow> string" where
  "render_item num (Ch c) = [c]"
| "render_item num (Dbl f v) = num f (Some v)"
| "render_item num (NonFinite f) = num f None"

definition render :: "(fmt \<Rightarrow> real option \<Rightarrow> string) \<Rightarrow> item list \<Rightarrow> string" where
  "render num xs = concat (map (render_item num) xs)"

text \<open>A default-constructed stream: no flags, precision 6, width 0.\<close>

definition ios_init :: "bool \<Rightarrow> ostream" where
  "ios_init opened = \<lparr>fixed = False, right = False, showpos = False, precision = 6, width = 0,
                      is_open = opened, failed = False, written = []\<rparr>"

text \<open>
  A formatted insertion. On a stream with an error bit nothing happens. Otherwise the
  field width is used and reset, and the field is written; when no file is attached the
  write fails and sets the error bit.
\<close>

definition emit :: "item list \<Rightarrow> ostream \<Rightarrow> ostream" where
  "emit body os =
     (if failed os then os
      else if \<not> is_open os then os\<lparr>width := 0, failed := True\<rparr>
      else os\<lparr>width := 0, written := written os @ body\<rparr>)"

definition pad :: "nat \<Rightarrow> string \<Rightarrow> string" where
  "pad w s = replicate (w - length s) (CHR '' '') @ s"

function nat_digits :: "nat \<Rightarrow> string" where
  "nat_digits n =
     (if n < 10 then [''0123456789'' ! n]
      else nat_digits (n div 10) @ [''0123456789'' ! (n mod 10)])"
  by pat_completeness auto
termination
  by (relation "measure (\<lambda>n. n)") auto

declare nat_digits.simps [simp del]

definition int_digits :: "bool \<Rightarrow> int \<Rightarrow> string" where
  "int_digits force_sign n =
     (if n < 0 then CHR ''-'' # nat_digits (nat (- n))
      else if force_sign then CHR ''+'' # nat_digits (nat n)
      else nat_digits (nat n))"

text \<open>\<open>os << s\<close> for a string, \<open>os << n\<close> for an \<open>int\<close>, \<open>os << v\<close> for a \<open>float\<close> or \<open>double\<close>.\<close>

definition put_str :: "string \<Rightarrow> ostream \<Rightarrow> ostream" where
  "put_str s os = emit (map Ch (pad (width os) s)) os"

definition put_int :: "int \<Rightarrow> ostream \<Rightarrow> ostream" where
  "put_int n os = emit (map Ch (pad (width os) (int_digits (showpos os) n))) os"

definition put_double :: "real \<Rightarrow> ostream \<Rightarrow> ostream" where
  "put_double v os = emit [Dbl (fmt_of os) v] os"

text \<open>The same insertion for a value that may not be finite (\<open>None\<close>).\<close>

definition put_double_opt :: "real option \<Rightarrow> ostream \<Rightarrow> ostream" where
  "put_double_opt v os =
     (case v of Some r \<Rightarrow> put_double r os | None \<Rightarrow> emit [NonFinite (fmt_of os)] os)"

text \<open>\<open>os << endl\<close> writes a newline character, unformatted: the width is not used.\<close>

definition endl :: "ostream \<Rightarrow> ostream" where
  "endl os =
     (if failed os then os
      else if \<not> is_open os then os\<lparr>failed := True\<rparr>
      else os\<lparr>written := written os @ [Ch (CHR 0x0A)]\<rparr>)"

text \<open>The manipulators and member functions that change the format state.\<close>

definition setprecision :: "nat \<Rightarrow> ostream \<Rightarrow> ostream" where
  "setprecision n os = os\<lparr>precision := n\<rparr>"

definition set_width :: "nat \<Rightarrow> ostream \<Rightarrow> ostream" where
  "set_width n os = os\<lparr>width := n\<rparr>"

definition setf_fixed_right :: "ostream \<Rightarrow> ostream" where
  "setf_fixed_right os = os\<lparr>fixed := True, right := True\<rparr>"

definition setf_showpos :: "ostream \<Rightarrow> ostream" where
  "setf_showpos os = os\<lparr>showpos := True\<rparr>"

definition unsetf_showpos :: "ostream \<Rightarrow> ostream" where
  "unsetf_showpos os = os\<lparr>showpos := False\<rparr>"

text \<open>
  \<open>ofstream::open\<close>: fails when a file is already attached or the file cannot be created
  (the file system is the parameter \<open>can_create\<close>); on failure the error bit is set, on
  success the error bits are cleared and the file starts empty.
\<close>

definition open_file :: "(string \<Rightarrow> bool) \<Rightarrow> string \<Rightarrow> ostream \<Rightarrow> ostream" where
  "open_file can_create path os =
     (if \<not> is_open os \<and> can_create path
      then os\<lparr>is_open := True, failed := False, written := []\<rparr>
      else os\<lparr>failed := True\<rparr>)"

text \<open>
  A statement acts on one stream. \<open>seq\<close> runs a list of statements on a stream, in program
  order.
\<close>

type_synonym stmt = "ostream \<Rightarrow> ostream"

definition seq :: "stmt list \<Rightarrow> ostream \<Rightarrow> ostream" where
  "seq stmts os = fold (\<lambda>st. st) stmts os"

definition tab :: string where
  "tab = [CHR 0x09]"

section \<open>The emitter\<close>

text \<open>The fields of \<open>array.shower_sim\<close> and of a photon \<open>bunch\<close> that the program reads.\<close>

record shower_sim_t =
  energy :: real
  azimuth :: real
  altitude :: real
  xcore :: real
  ycore :: real
  firstint :: real
  shower_id :: int

record telescope_array =
  shower_sim :: shower_sim_t

record bunch =
  bunch_x :: real
  bunch_y :: real
  bunch_cx :: real
  bunch_cy :: real
  bunch_ctime :: real
  bunch_zem :: real
  bunch_lambda :: real

text \<open>
  The members of \<open>VGrisu\<close>, followed by the two parts of the surrounding process that the
  class acts on: the console stream \<open>cout\<close>, and the arguments of every call made to the
  atmosphere routine \<open>atmset_\<close>.
\<close>

record VGrisu =
  degrad :: real
  fVersion :: string
  bSTDOUT :: bool
  primID :: int
  xoff :: real
  yoff :: real
  qeff :: real
  observation_height :: real
  atm_id :: int
  particles :: "int \<rightharpoonup> int"
  of_file :: ostream
  cout :: ostream
  atmset_calls :: "(int \<times> real) list"

text \<open>The stream that the writing operations select.\<close>

definition sink :: "VGrisu \<Rightarrow> ostream" where
  "sink s = (if bSTDOUT s then cout s else of_file s)"

text \<open>\<open>VGrisu::makeParticleMap\<close>: CORSIKA particle IDs to kascade particle IDs.\<close>

definition makeParticleMap :: "VGrisu \<Rightarrow> VGrisu" where
  "makeParticleMap s =
     (let p = Map.empty;
          p = p(1 \<mapsto> 1);
          p = p(2 \<mapsto> 2);
          p = p(3 \<mapsto> 3);
          p = p(5 \<mapsto> 4);
          p = p(6 \<mapsto> 5);
          p = p(7 \<mapsto> 6);
          p = p(8 \<mapsto> 7);
          p = p(9 \<mapsto> 8);
          p = p(11 \<mapsto> 9);
          p = p(12 \<mapsto> 10);
          p = p(10 \<mapsto> 11);
          p = p(16 \<mapsto> 12);
          p = p(14 \<mapsto> 13);
          p = p(13 \<mapsto> 14)
      in s\<lparr>particles := p\<rparr>)"

text \<open>
  The constructor. \<open>atmset_( &atm_id, &observation_height )\<close> is an external routine that
  receives both members by address; it is the parameter \<open>atmset\<close>, from the two values
  to the two values it leaves there. \<open>console\<close> is the state of \<open>cout\<close> at that moment.
\<close>

definition VGrisu_ctor ::
  "(int \<Rightarrow> real \<Rightarrow> int \<times> real) \<Rightarrow> ostream \<Rightarrow> string \<Rightarrow> int \<Rightarrow> VGrisu" where
  "VGrisu_ctor atmset console iVersion id' =
     (let s = \<lparr>degrad = 45 / arctan 1, fVersion = iVersion, bSTDOUT = False, primID = 0,
               xoff = 0, yoff = 0, qeff = 1, observation_height = 100, atm_id = id',
               particles = Map.empty, of_file = ios_init False, cout = console,
               atmset_calls = []\<rparr>;
          s = (if id' \<ge> 0
               then (let (i, h) = atmset (atm_id s) (observation_height s)
                     in s\<lparr>atm_id := i, observation_height := h,
                          atmset_calls := atmset_calls s @ [(atm_id s, observation_height s)]\<rparr>)
               else s)
      in makeParticleMap s)"

text \<open>
  \<open>VGrisu::setOutputfile\<close>. \<open>exit( -1 )\<close> ends the process: the result is then \<open>Inl\<close> of the
  argument of \<open>exit\<close> and the final state. The status that the parent process receives is
  the low eight bits of the argument.
\<close>

datatype exited = Exited int VGrisu


definition setOutputfile :: "(string \<Rightarrow> bool) \<Rightarrow> string \<Rightarrow> VGrisu \<Rightarrow> exited + VGrisu" where
  "setOutputfile can_create ofile s =
     (if ofile \<noteq> ''stdout''
      then (let s = s\<lparr>of_file := open_file can_create ofile (of_file s)\<rparr>
            in if failed (of_file s)
               then Inl (Exited (- 1)
                      (s\<lparr>cout := seq [put_str ''VGrisu::setOutputfile: error opening outputfile: '',
                                      put_str ofile, endl] (cout s)\<rparr>))
               else Inr (s\<lparr>of_file := seq [setf_fixed_right, setprecision 4, set_width 15]
                                          (of_file s)\<rparr>))
      else (let s = s\<lparr>bSTDOUT := True\<rparr>
            in Inr (s\<lparr>cout := seq [setf_fixed_right, setprecision 4, set_width 15] (cout s)\<rparr>)))"

text \<open>
  \<open>VGrisu::writeRunHeader\<close>. The buffer \<open>buf1\<close> is read at fixed positions; the program
  does not know its length, so it is a function from positions to values. \<open>f\<close> is the
  pointer to the run header object (\<open>None\<close> for a null pointer); its \<open>printHeader\<close> writes
  to the stream it is given. The function has one branch for the file and one for the
  console; the two definitions below are the statements of these two branches.
\<close>

definition writeRunHeader_file ::
  "(nat \<Rightarrow> real) \<Rightarrow> stmt option \<Rightarrow> VGrisu \<Rightarrow> stmt list" where
  "writeRunHeader_file buf1 f s =
     [put_str ''* HEADF  <-- Start of header flag'', endl,
      endl,
      put_str ''photon list created with '', put_str (fVersion s), endl,
      endl,
      put_str ''       Photons generated by CORSIKA  (date: '', put_int (to_int (buf1 44)),
      put_str '')'', endl,
      endl,
      put_str (tab @ '' CORSIKA run number: ''), put_int (to_int (buf1 43)), endl,
      put_str (tab @ '' CORSIKA version: ''), put_double (buf1 45), endl,
      endl, endl,
      put_str '' TITLE OF RUN: '', endl,
      put_str (tab @ tab @ tab @ '' Primary energy<min.,max.> TeV = ''),
      put_double (buf1 58 / 1000), put_str tab, put_double (buf1 59 / 1000), endl,
      put_str (tab @ tab @ tab @ '' Slope of energy spectrum: ''), put_double (buf1 57), endl,
      put_str (tab @ tab @ tab @ '' Type code for primary particle (CORSIKA ID) ''),
      put_int (to_int (buf1 2)), endl,
      put_str ''PTYPE: '', put_int (to_int (buf1 2)), endl] @
     (case particles s (to_int (buf1 2)) of
        Some k \<Rightarrow>
          [put_str (tab @ tab @ tab @ '' Type code for primary particle (kascade ID) ''),
           put_int k, endl]
      | None \<Rightarrow>
          [put_str (tab @ tab @ tab @ '' Type code for primary particle (kascade ID) '' @ tab @
                     '' unknown particle (for kascade)''), endl]) @
     [put_str (tab @ tab @ tab @ '' Primary zenith angle  (CORSIKA coord.): ''),
      put_double (buf1 10 * degrad s), endl,
      put_str (tab @ tab @ tab @ '' Primary azimuth angle (CORSIKA coord.): ''),
      put_double (buf1 11 * degrad s), endl] @
     (let x = 0;
          az = buf1 11;
          (az, x, y) = transformCoord az x x
      in [put_str (tab @ tab @ tab @ '' Primary zenith angle  (kascade coord.): ''),
          put_double (buf1 10 * degrad s), endl,
          put_str (tab @ tab @ tab @ '' Primary azimuth angle (kascade coord.): ''),
          put_double (az * degrad s), endl,
          put_str (tab @ tab @ tab @ '' Magnetic field (x/z): ''), put_double (buf1 70),
          put_str tab, put_double (buf1 71), endl,
          put_str (tab @ tab @ tab @ '' Observation height [m]: ''), put_double (buf1 47 * 0.01),
          endl,
          put_str (tab @ tab @ tab @ '' Energy cuts (hadr./muon/el./phot.) [GeV]: ''),
          put_double (buf1 60), put_str tab, put_double (buf1 61), put_str tab,
          put_double (buf1 62), put_str tab, put_double (buf1 63), endl,
          put_str ''CORSIKA RUN HEADER (START)'', endl]) @
     (case f of Some printHeader \<Rightarrow> [printHeader] | None \<Rightarrow> []) @
     [put_str ''CORSIKA RUN HEADER (END)'', endl,
      endl,
      put_str ''* DATAF  <-- end of header flag'', endl,
      put_str ''R '', put_double (qeff s), endl,
      put_str ''H '', put_double (observation_height s), endl]"

definition writeRunHeader_cout ::
  "(nat \<Rightarrow> real) \<Rightarrow> stmt option \<Rightarrow> VGrisu \<Rightarrow> stmt list" where
  "writeRunHeader_cout buf1 f s =
     [put_str ''* HEADF  <-- Start of header flag'', endl,
      endl,
      put_str ''photon list created with '', put_str (fVersion s), endl,
      endl,
      put_str ''       Photons generated by CORSIKA  (date: '', put_int (to_int (buf1 44)),
      put_str '' C)'', endl,
      endl,
      put_str (tab @ '' CORSIKA run number: ''), put_int (to_int (buf1 43)), endl,
      put_str (tab @ '' CORSIKA version: ''), put_double (buf1 45), endl,
      endl, endl,
      put_str '' TITLE OF RUN: '', endl,
      put_str (tab @ tab @ tab @ '' Primary energy<min.,max.> TeV = ''),
      put_double (buf1 58 / 1000), put_str tab, put_double (buf1 59 / 1000), endl,
      put_str (tab @ tab @ tab @ '' Slope of energy spectrum: ''), put_double (buf1 57), endl,
      put_str (tab @ tab @ tab @ '' Type code for primary particle (CORSIKA ID) ''),
      put_int (to_int (buf1 2)), endl] @
     (case particles s (to_int (buf1 2)) of
        Some k \<Rightarrow>
          [put_str (tab @ tab @ tab @ '' Type code for primary particle (kascade ID) ''),
           put_int k, endl]
      | None \<Rightarrow>
          [put_str (tab @ tab @ tab @ '' Type code for primary particle (kascade ID) '' @ tab @
                     '' unknown particle (for kascade)''), endl]) @
     [put_str ''PTYPE: '', put_int (to_int (buf1 2)), endl,
      put_str (tab @ tab @ tab @ '' Primary zenith angle  (CORSIKA coord.): ''),
      put_double (buf1 10 * degrad s), endl,
      put_str (tab @ tab @ tab @ '' Primary azimuth angle (CORSIKA coord.): ''),
      put_double (buf1 11 * degrad s), endl] @
     (let x = 0;
          az = buf1 11;
          (az, x, y) = transformCoord az x x
      in [put_str (tab @ tab @ tab @ '' Primary zenith angle  (kascade coord.): ''),
          put_double (buf1 10 * degrad s), endl,
          put_str (tab @ tab @ tab @ '' Primary azimuth angle (kascade coord.): ''),
          put_double (az * degrad s), endl,
          put_str (tab @ tab @ tab @ '' Magnetic field (x/z): ''), put_double (buf1 70),
          put_str tab, put_double (buf1 71), endl,
          put_str (tab @ tab @ tab @ '' Observation height [m]: ''), put_double (buf1 47 * 0.01),
          endl,
          put_str (tab @ tab @ tab @ '' Energy cuts (hadr./muon/el./phot.) [GeV]: ''),
          put_double (buf1 60), put_str tab, put_double (buf1 61), put_str tab,
          put_double (buf1 62), put_str tab, put_double (buf1 63), endl,
          endl,
          put_str ''CORSIKA RUN HEADER (START)'', endl]) @
     (case f of Some printHeader \<Rightarrow> [printHeader] | None \<Rightarrow> []) @
     [put_str ''CORSIKA RUN HEADER (END)'', endl,
      endl,
      put_str ''* DATAF  <-- end of header flag'', endl,
      put_str ''R '', put_double (qeff s), endl,
      put_str ''H '', put_double (observation_height s), endl]"

definition writeRunHeader :: "(nat \<Rightarrow> real) \<Rightarrow> stmt option \<Rightarrow> VGrisu \<Rightarrow> VGrisu" where
  "writeRunHeader buf1 f s =
     (if \<not> bSTDOUT s
      then s\<lparr>of_file := seq (writeRunHeader_file buf1 f s) (of_file s)\<rparr>
      else s\<lparr>cout := seq (writeRunHeader_cout buf1 f s) (cout s)\<rparr>)"

text \<open>
  \<open>VGrisu::writeEvent\<close>: the shower line ("S") and, on request, the line of additional
  CORSIKA information ("C"). Each line has a branch for the file and one for the console.
  \<open>thickx_\<close> is an external routine of the atmosphere model; it is the parameter \<open>thickx\<close>.
  The slant depth is a quotient by \<open>cos ze\<close> and is not finite when that is 0. The angles
  are quotients by the member \<open>degrad\<close>, which is \<open>45 / atan 1\<close> from construction on.
\<close>

definition shower_line_file ::
  "telescope_array \<Rightarrow> real \<Rightarrow> real \<Rightarrow> real \<Rightarrow> real \<Rightarrow> stmt list" where
  "shower_line_file array x y dcos dsin =
     [put_str ''S'',
      put_str '' '', setprecision 7, put_double (energy (shower_sim array)),
      put_str '' '', setprecision 7, put_double x,
      put_str '' '', setprecision 7, put_double y,
      put_str '' '', setprecision 7, put_double dcos,
      put_str '' '', setprecision 7, put_double dsin,
      put_str '' '', setprecision 7, put_double (firstint (shower_sim array)),
      put_str '' '', put_int (- 1),
      put_str '' '', put_int (- 1),
      put_str '' '', put_int (- 1),
      endl]"

definition shower_line_cout ::
  "telescope_array \<Rightarrow> real \<Rightarrow> real \<Rightarrow> real \<Rightarrow> real \<Rightarrow> stmt list" where
  "shower_line_cout array x y dcos dsin =
     [put_str ''S'',
      put_str '' '', setprecision 7, put_double (energy (shower_sim array)),
      put_str '' '', setprecision 7, put_double x,
      put_str '' '', setprecision 7, put_double y,
      put_str '' '', setprecision 7, put_double dcos,
      put_str '' '', setprecision 7, put_double dsin,
      put_str '' '', setprecision 7, put_double (firstint (shower_sim array)),
      put_str '' '', put_int (- 1),
      put_str '' '', put_int (- 1),
      put_str '' '', put_int (- 1),
      endl]"

definition corsika_line_file :: "telescope_array \<Rightarrow> real option \<Rightarrow> stmt list" where
  "corsika_line_file array thick =
     [put_str ''C '', setprecision 7, put_double (firstint (shower_sim array)),
      put_str '' '', put_double_opt thick,
      put_str '' '', put_int (shower_id (shower_sim array)), endl]"

definition corsika_line_cout :: "telescope_array \<Rightarrow> real option \<Rightarrow> stmt list" where
  "corsika_line_cout array thick =
     [put_str ''C '', setprecision 7, put_double (firstint (shower_sim array)),
      put_str '' '', put_double_opt thick,
      put_str '' '', put_int (shower_id (shower_sim array)), endl]"

definition writeEvent :: "(real \<Rightarrow> real) \<Rightarrow> telescope_array \<Rightarrow> bool \<Rightarrow> VGrisu \<Rightarrow> VGrisu" where
  "writeEvent thickx array printMoreInfo s =
     (let phi = azimuth (shower_sim array) / degrad s;
          ze = (90 - altitude (shower_sim array)) / degrad s;
          x = xcore (shower_sim array);
          y = ycore (shower_sim array);
          s = s\<lparr>xoff := x\<rparr>;
          s = s\<lparr>yoff := y\<rparr>;
          (phi, x, y) = transformCoord phi x y;
          dcos = sin ze * cos phi;
          dcos = (if \<bar>dcos\<bar> < 0.00000001 then 0 else dcos);
          dsin = sin ze * sin phi;
          dsin = (if \<bar>dsin\<bar> < 0.00000001 then 0 else dsin);
          ih = 100 * firstint (shower_sim array);
          thick = Some (- 1);
          thick = (if printMoreInfo then fdiv (thickx ih) (cos ze) else thick);
          s = (if \<not> bSTDOUT s
               then s\<lparr>of_file := seq (shower_line_file array x y dcos dsin) (of_file s)\<rparr>
               else s\<lparr>cout := seq (shower_line_cout array x y dcos dsin) (cout s)\<rparr>);
          s = (if printMoreInfo
               then (if \<not> bSTDOUT s
                     then s\<lparr>of_file := seq (corsika_line_file array thick) (of_file s)\<rparr>
                     else s\<lparr>cout := seq (corsika_line_cout array thick) (cout s)\<rparr>)
               else s)
      in s)"

text \<open>
  \<open>VGrisu::writePhotons\<close>: the photon line ("P"). The zenith angle \<open>ze\<close> goes through
  \<open>sqrt\<close> and \<open>acos\<close>, so it is a \<open>real option\<close>, and so are the two fields computed from it.
\<close>

definition photon_line_file ::
  "bunch \<Rightarrow> int \<Rightarrow> real \<Rightarrow> real \<Rightarrow> real option \<Rightarrow> real \<Rightarrow> stmt list" where
  "photon_line_file i_bunch i_tel x y ze az =
     [setf_showpos,
      put_str ''P'', put_str '' '',
      setprecision 7, put_double x, put_str '' '',
      setprecision 7, put_double y, put_str '' '',
      setprecision 7, put_double_opt (map_option (\<lambda>ze. sin ze * cos az) ze), put_str '' '',
      setprecision 7, put_double_opt (map_option (\<lambda>ze. sin ze * sin az) ze), put_str '' '',
      setprecision 7, put_double (bunch_zem i_bunch), put_str '' '',
      setprecision 7, put_double (bunch_ctime i_bunch), put_str '' '',
      put_int (to_int (bunch_lambda i_bunch)), put_str '' '',
      put_int 3, put_str '' '',
      put_int (i_tel + 1),
      endl,
      unsetf_showpos]"

definition photon_line_cout ::
  "bunch \<Rightarrow> int \<Rightarrow> real \<Rightarrow> real \<Rightarrow> real option \<Rightarrow> real \<Rightarrow> stmt list" where
  "photon_line_cout i_bunch i_tel x y ze az =
     [setf_showpos,
      put_str ''P'', put_str '' '',
      setprecision 7, put_double x, put_str '' '',
      setprecision 7, put_double y, put_str '' '',
      setprecision 7, put_double_opt (map_option (\<lambda>ze. sin ze * cos az) ze), put_str '' '',
      setprecision 7, put_double_opt (map_option (\<lambda>ze. sin ze * sin az) ze), put_str '' '',
      setprecision 7, put_double (bunch_zem i_bunch), put_str '' '',
      setprecision 7, put_double (bunch_ctime i_bunch), put_str '' '',
      put_int (to_int (bunch_lambda i_bunch)), put_str '' '',
      put_int 3, put_str '' '',
      put_int (i_tel + 1),
      endl,
      unsetf_showpos]"

definition writePhotons :: "bunch \<Rightarrow> int \<Rightarrow> VGrisu \<Rightarrow> VGrisu" where
  "writePhotons i_bunch i_tel s =
     (let x = bunch_x i_bunch;
          y = bunch_y i_bunch;
          az = atan2 (bunch_cy i_bunch) (bunch_cx i_bunch);
          ze = 1 - (bunch_cx i_bunch * bunch_cx i_bunch + bunch_cy i_bunch * bunch_cy i_bunch);
          ze = (if ze > 0 then sqrt_c ze else Some 0);
          ze = Option.bind ze acos_c;
          (az, x, y) = transformCoord az x y
      in if \<not> bSTDOUT s
         then s\<lparr>of_file := seq (photon_line_file i_bunch i_tel x y ze az) (of_file s)\<rparr>
         else s\<lparr>cout := seq (photon_line_cout i_bunch i_tel x y ze az) (cout s)\<rparr>)"

section \<open>Sequences of calls\<close>

text \<open>
  A caller uses the emitter through its four operations. \<open>run\<close> performs a list of calls
  in order; it stops at the call that ends the process. \<open>final\<close> is the state in which
  the sequence ended.
\<close>

datatype call =
    SetOutputfile string
  | WriteRunHeader "nat \<Rightarrow> real" "stmt option"
  | WriteEvent telescope_array bool
  | WritePhotons bunch int

fun run :: "(string \<Rightarrow> bool) \<Rightarrow> (real \<Rightarrow> real) \<Rightarrow> call list \<Rightarrow> VGrisu \<Rightarrow> exited + VGrisu" where
  "run can_create thickx [] s = Inr s"
| "run can_create thickx (SetOutputfile ofile # cs) s =
     (case setOutputfile can_create ofile s of
        Inl e \<Rightarrow> Inl e
      | Inr t \<Rightarrow> run can_create thickx cs t)"
| "run can_create thickx (WriteRunHeader buf1 f # cs) s =
     run can_create thickx cs (writeRunHeader buf1 f s)"
| "run can_create thickx (WriteEvent array printMoreInfo # cs) s =
     run can_create thickx cs (writeEvent thickx array printMoreInfo s)"
| "run can_create thickx (WritePhotons i_bunch i_tel # cs) s =
     run can_create thickx cs (writePhotons i_bunch i_tel s)"

fun final :: "exited + VGrisu \<Rightarrow> VGrisu" where
  "final (Inl (Exited n s)) = s"
| "final (Inr s) = s"

section \<open>Properties of statements\<close>

text \<open>
  A statement appends when it only adds to what has been written; it keeps a stream
  writable when, on a stream with a file attached and no error bit, it leaves such a
  stream. The external \<open>printHeader\<close> is an arbitrary statement; where a theorem needs it
  to append, it says so.
\<close>

definition appends :: "stmt \<Rightarrow> bool" where
  "appends st = (\<forall>os. prefix (written os) (written (st os)))"

definition keeps_writable :: "stmt \<Rightarrow> bool" where
  "keeps_writable st =
     (\<forall>os. is_open os \<and> \<not> failed os \<longrightarrow> is_open (st os) \<and> \<not> failed (st os))"

section \<open>Sample inputs\<close>

text \<open>
  An emitter constructed without atmosphere model (identifier \<open>-1\<close>) in a process whose
  console is in its initial state, with the console selected and with a file selected;
  the vertical shower of energy 1 with core \<open>(0, 0)\<close> and first interaction at 10; and
  the same shower with core \<open>(1, 2)\<close>; and a photon that arrives vertically at \<open>(1, 2)\<close>.
\<close>

definition fresh_emitter :: VGrisu where
  "fresh_emitter = VGrisu_ctor Pair (ios_init True) ''v1'' (- 1)"

definition console_emitter :: VGrisu where
  "console_emitter = projr (setOutputfile (\<lambda>path. True) ''stdout'' fresh_emitter)"

definition file_emitter :: VGrisu where
  "file_emitter = projr (setOutputfile (\<lambda>path. True) ''run.grisu'' fresh_emitter)"

definition vertical_photon :: bunch where
  "vertical_photon =
     \<lparr>bunch_x = 1, bunch_y = 2, bunch_cx = 0, bunch_cy = 0, bunch_ctime = 5,
      bunch_zem = 1000, bunch_lambda = 400\<rparr>"

definition offset_shower :: telescope_array where
  "offset_shower =
     \<lparr>shower_sim = \<lparr>energy = 1, azimuth = 0, altitude = 90, xcore = 1, ycore = 2,
                     firstint = 10, shower_id = 1\<rparr>\<rparr>"

definition vertical_shower :: telescope_array where
  "vertical_shower =
     \<lparr>shower_sim = \<lparr>energy = 1, azimuth = 0, altitude = 90, xcore = 0, ycore = 0,
                     firstint = 10, shower_id = 1\<rparr>\<rparr>"

section \<open>Angle reduction\<close>

lemma two_pi_pos: "0 < 2 * M_PI"
  by (simp add: M_PI_def)

lemma redang_nonneg_range:
  assumes "0 \<le> a"
  shows "0 \<le> redang a \<and> redang a < 2 * M_PI"
proof -
  let ?p = "2 * M_PI"
  have p: "0 < ?p" by (rule two_pi_pos)
  have q: "0 \<le> a / ?p" using assms p by simp
  have fl: "of_int \<lfloor>a / ?p\<rfloor> \<le> a / ?p" "a / ?p < of_int \<lfloor>a / ?p\<rfloor> + 1"
    by linarith+
  have lo: "of_int \<lfloor>a / ?p\<rfloor> * ?p \<le> a"
    using fl(1) p by (metis pos_le_divide_eq)
  have hi: "a < (of_int \<lfloor>a / ?p\<rfloor> + 1) * ?p"
    using fl(2) p by (metis pos_divide_less_eq)
  have r: "redang a = a - of_int \<lfloor>a / ?p\<rfloor> * ?p"
    using assms q by (simp add: redang_def to_int_def)
  show ?thesis using lo hi r by (simp add: algebra_simps)
qed

lemma redang_small_negative:
  assumes "- (2 * M_PI) < a" "a < 0"
  shows "redang a = 2 * M_PI + a"
proof -
  have p: "0 < 2 * M_PI" by (rule two_pi_pos)
  have "- 1 < a / (2 * M_PI)" using assms p by (simp add: pos_less_divide_eq)
  moreover have "a / (2 * M_PI) < 0" using assms p by (simp add: divide_neg_pos)
  ultimately have "\<lceil>a / (2 * M_PI)\<rceil> = 0" and "\<not> 0 \<le> a / (2 * M_PI)" by linarith+
  then show ?thesis using assms by (simp add: redang_def to_int_def)
qed

lemma pi_ge_3: "3 \<le> pi"
  using sin_x_le_x [of "pi / 6"] by (simp add: sin_30)

lemma redang_negative:
  assumes "a < 0"
  shows "redang a = 2 * M_PI + a + of_int \<lceil>a / (2 * M_PI)\<rceil> * 2 * M_PI"
proof -
  have "a / (2 * M_PI) < 0" using assms two_pi_pos by (rule divide_neg_pos)
  then have "\<not> 0 \<le> a / (2 * M_PI)" by linarith
  moreover have "\<not> 0 \<le> a" using assms by linarith
  ultimately show ?thesis unfolding redang_def to_int_def by presburger
qed

lemma redang_minus_8: "redang (- 8) = - 8"
proof -
  have p: "3 \<le> pi" "pi < 4" using pi_ge_3 pi_less_4 by auto
  have a: "- 8 / (2 * pi) \<le> - 1" using p by (simp add: field_simps)
  have b: "- 2 < - 8 / (2 * pi)" using p by (simp add: field_simps)
  have c: "\<lceil>- 8 / (2 * M_PI)\<rceil> = - 1" unfolding M_PI_def using a b by linarith
  show ?thesis using redang_negative [of "- 8"] unfolding c by simp
qed

lemma redang_minus_two_pi: "redang (- (2 * M_PI)) = - (2 * M_PI)"
proof -
  have n: "- (2 * M_PI) < 0" using two_pi_pos by linarith
  have c: "- (2 * M_PI) / (2 * M_PI) = - 1" using two_pi_pos by simp
  show ?thesis using redang_negative [OF n] unfolding c by simp
qed

lemma redang_minus_8_shifted: "redang (- 8 + 2 * M_PI) = 4 * M_PI - 8"
proof -
  have p: "3 \<le> pi" "pi < 4" using pi_ge_3 pi_less_4 by auto
  have "redang (- 8 + 2 * M_PI) = 2 * M_PI + (- 8 + 2 * M_PI)"
    by (rule redang_small_negative) (use p in \<open>simp_all add: M_PI_def\<close>)
  then show ?thesis by simp
qed

text \<open>
  Below \<open>-2\<pi>\<close> the negative branch adds the (negative) multiple of \<open>2\<pi>\<close> instead of
  subtracting it, so the result is not above the input.
\<close>

lemma redang_below_minus_two_pi:
  assumes "a \<le> - (2 * M_PI)"
  shows "redang a \<le> a"
proof -
  have p: "0 < 2 * M_PI" by (rule two_pi_pos)
  have neg: "a < 0" using assms p by linarith
  have "a / (2 * M_PI) \<le> - 1" using assms p by (simp add: pos_divide_le_eq)
  then have "\<lceil>a / (2 * M_PI)\<rceil> \<le> - 1" by linarith
  then have "(of_int \<lceil>a / (2 * M_PI)\<rceil> :: real) \<le> - 1" by linarith
  then have "of_int \<lceil>a / (2 * M_PI)\<rceil> * (2 * M_PI) \<le> - 1 * (2 * M_PI)"
    using p by (rule mult_right_mono [OF _ less_imp_le])
  then show ?thesis using redang_negative [OF neg] by (simp add: algebra_simps)
qed

text \<open>
  C1. The claim is that \<open>redang\<close> returns a value in \<open>[0, 2\<pi>)\<close> for every input, that it
  returns 0 at every integer multiple of \<open>2\<pi>\<close>, and that it has period \<open>2\<pi>\<close>. At the input
  \<open>-8\<close> the function returns \<open>-8\<close>, which is negative; at \<open>-2\<pi>\<close> it returns \<open>-2\<pi>\<close> and
  not 0; and the inputs \<open>-8\<close> and \<open>-8 + 2\<pi>\<close> give different results.
\<close>

theorem redang_negative_input:
  "redang (- 8) = - 8 \<and> redang (- 8) < 0
   \<and> redang (- (2 * M_PI)) = - (2 * M_PI) \<and> redang (- (2 * M_PI)) \<noteq> 0
   \<and> redang (- 8 + 2 * M_PI) = 4 * M_PI - 8 \<and> redang (- 8 + 2 * M_PI) \<noteq> redang (- 8)"
proof -
  have "(0::real) < 4 * M_PI" using two_pi_pos by linarith
  then have "4 * M_PI - 8 \<noteq> (- 8 :: real)" by linarith
  moreover have "- (2 * M_PI) \<noteq> 0" using two_pi_pos by linarith
  ultimately show ?thesis
    by (simp only: redang_minus_8 redang_minus_two_pi redang_minus_8_shifted) simp
qed

section \<open>The frame transform\<close>

text \<open>
  C2. For every triple \<open>(az, x, y)\<close>, \<open>transformCoord\<close> gives
  \<open>az' = redang (1.5\<pi> - redang az)\<close>, \<open>x' = -y\<close>, \<open>y' = -x\<close>. It is a function of its
  three arguments alone: it neither reads nor changes the state of the emitter.
\<close>

theorem transformCoord_result:
  "transformCoord az x y = (redang (1.5 * M_PI - redang az), - y, - x)"
  by (simp add: transformCoord_def)

text \<open>
  The body over references gives the same three values whenever the azimuth is a variable
  of its own; \<open>x\<close> and \<open>y\<close> may be the same variable, which then ends negated.
\<close>

lemma transformCoord_ref_result:
  assumes "az \<noteq> x" "az \<noteq> y"
  shows "transformCoord_ref az x y h az = fst (transformCoord (h az) (h x) (h y))"
    and "transformCoord_ref az x y h x = fst (snd (transformCoord (h az) (h x) (h y)))"
    and "x \<noteq> y \<Longrightarrow>
         transformCoord_ref az x y h y = snd (snd (transformCoord (h az) (h x) (h y)))"
  using assms by (simp_all add: transformCoord_ref_def transformCoord_def Let_def)

text \<open>An azimuth of 0 becomes \<open>1.5\<pi>\<close>.\<close>

lemma redang_zero: "redang 0 = 0"
  by (simp add: redang_def to_int_def)

lemma redang_three_half_pi: "redang (1.5 * M_PI) = 1.5 * M_PI"
proof -
  have "1.5 * M_PI / (2 * M_PI) = 3 / 4" using two_pi_pos by simp
  then have "\<lfloor>1.5 * M_PI / (2 * M_PI)\<rfloor> = 0" by simp
  moreover have "0 \<le> 1.5 * M_PI" "0 \<le> 1.5 * M_PI / (2 * M_PI)" using two_pi_pos by simp_all
  ultimately show ?thesis unfolding redang_def to_int_def by simp
qed

lemma transformCoord_zero_azimuth: "transformCoord 0 x y = (1.5 * M_PI, - y, - x)"
  using redang_three_half_pi by (simp add: transformCoord_def redang_zero)

section \<open>Streams\<close>

lemmas stream_defs = seq_def put_str_def put_int_def put_double_def put_double_opt_def
  emit_def endl_def setprecision_def set_width_def setf_fixed_right_def setf_showpos_def
  unsetf_showpos_def fmt_of_def

lemma nat_digits_small: "n < 10 \<Longrightarrow> nat_digits n = [''0123456789'' ! n]"
  by (subst nat_digits.simps) simp

lemma int_digits_minus_1: "int_digits b (- 1) = ''-1''"
  by (simp add: int_digits_def nat_digits_small)

lemma pad_15_single: "pad 15 [c] = replicate 14 CHR '' '' @ [c]"
  by (simp add: pad_def)

lemma replicate_14: "replicate 14 c = [c, c, c, c, c, c, c, c, c, c, c, c, c, c]"
  by (simp add: numeral_eq_Suc)

lemma console_emitter_sink:
  "sink console_emitter =
     (ios_init True)\<lparr>fixed := True, right := True, precision := 4, width := 15\<rparr>"
  by (simp add: console_emitter_def fresh_emitter_def setOutputfile_def VGrisu_ctor_def
      makeParticleMap_def sink_def Let_def seq_def setf_fixed_right_def setprecision_def
      set_width_def)

lemma file_emitter_sink:
  "sink file_emitter =
     (ios_init True)\<lparr>fixed := True, right := True, precision := 4, width := 15\<rparr>"
  by (simp add: file_emitter_def fresh_emitter_def setOutputfile_def VGrisu_ctor_def
      makeParticleMap_def sink_def Let_def seq_def setf_fixed_right_def setprecision_def
      set_width_def open_file_def ios_init_def)

section \<open>The shower line\<close>

text \<open>The two branches of each line are the same statements.\<close>

lemma shower_line_same: "shower_line_cout = shower_line_file"
  by (simp add: fun_eq_iff shower_line_cout_def shower_line_file_def)

lemma corsika_line_same: "corsika_line_cout = corsika_line_file"
  by (simp add: fun_eq_iff corsika_line_cout_def corsika_line_file_def)

lemma photon_line_same: "photon_line_cout = photon_line_file"
  by (simp add: fun_eq_iff photon_line_cout_def photon_line_file_def)

lemma shower_line_file_writable:
  assumes "is_open os" "\<not> failed os"
  shows "seq (shower_line_file arr a b c d) os =
    os\<lparr>precision := 7, width := 0,
       written := written os @ map Ch (pad (width os) ''S'') @
         [Ch CHR '' '', Dbl (fmt_of (os\<lparr>precision := 7, width := 0\<rparr>)) (energy (shower_sim arr)),
          Ch CHR '' '', Dbl (fmt_of (os\<lparr>precision := 7, width := 0\<rparr>)) a,
          Ch CHR '' '', Dbl (fmt_of (os\<lparr>precision := 7, width := 0\<rparr>)) b,
          Ch CHR '' '', Dbl (fmt_of (os\<lparr>precision := 7, width := 0\<rparr>)) c,
          Ch CHR '' '', Dbl (fmt_of (os\<lparr>precision := 7, width := 0\<rparr>)) d,
          Ch CHR '' '', Dbl (fmt_of (os\<lparr>precision := 7, width := 0\<rparr>)) (firstint (shower_sim arr))] @
         map Ch '' -1 -1 -1'' @ [Ch (CHR 0x0A)]\<rparr>"
  using assms
  by (simp add: shower_line_file_def stream_defs pad_def int_digits_minus_1)

lemma corsika_line_file_writable:
  assumes "is_open os" "\<not> failed os" "width os = 0"
  shows "seq (corsika_line_file arr thick) os =
    os\<lparr>precision := 7,
       written := written os @ map Ch ''C '' @
         [Dbl (fmt_of (os\<lparr>precision := 7\<rparr>)) (firstint (shower_sim arr)),
          Ch CHR '' '',
          (case thick of Some v \<Rightarrow> Dbl (fmt_of (os\<lparr>precision := 7\<rparr>)) v
                       | None \<Rightarrow> NonFinite (fmt_of (os\<lparr>precision := 7\<rparr>))),
          Ch CHR '' ''] @
         map Ch (int_digits (showpos os) (shower_id (shower_sim arr))) @ [Ch (CHR 0x0A)]\<rparr>"
  using assms
  by (simp add: corsika_line_file_def stream_defs pad_def split: option.splits)

lemma writeEvent_unfold:
  "writeEvent thickx arr info s =
     (let ze = (90 - altitude (shower_sim arr)) / degrad s;
          az = redang (1.5 * M_PI - redang (azimuth (shower_sim arr) / degrad s));
          dcos = sin ze * cos az;
          dsin = sin ze * sin az;
          line = seq (shower_line_file arr (- ycore (shower_sim arr)) (- xcore (shower_sim arr))
                   (if \<bar>dcos\<bar> < 0.00000001 then 0 else dcos)
                   (if \<bar>dsin\<bar> < 0.00000001 then 0 else dsin));
          extra = (if info
                   then seq (corsika_line_file arr
                          (fdiv (thickx (100 * firstint (shower_sim arr))) (cos ze)))
                   else (\<lambda>os. os));
          t = s\<lparr>xoff := xcore (shower_sim arr), yoff := ycore (shower_sim arr)\<rparr>
      in if bSTDOUT s then t\<lparr>cout := extra (line (cout s))\<rparr>
         else t\<lparr>of_file := extra (line (of_file s))\<rparr>)"
  by (simp add: writeEvent_def transformCoord_def Let_def shower_line_same corsika_line_same)

lemma sink_writeEvent:
  "sink (writeEvent thickx arr info s) =
     (let ze = (90 - altitude (shower_sim arr)) / degrad s;
          az = redang (1.5 * M_PI - redang (azimuth (shower_sim arr) / degrad s));
          dcos = sin ze * cos az;
          dsin = sin ze * sin az;
          os = seq (shower_line_file arr (- ycore (shower_sim arr)) (- xcore (shower_sim arr))
                   (if \<bar>dcos\<bar> < 0.00000001 then 0 else dcos)
                   (if \<bar>dsin\<bar> < 0.00000001 then 0 else dsin)) (sink s)
      in if info
         then seq (corsika_line_file arr
                (fdiv (thickx (100 * firstint (shower_sim arr))) (cos ze))) os
         else os)"
  by (simp add: writeEvent_unfold sink_def Let_def)

text \<open>
  C5. In the shower line that \<open>writeEvent\<close> writes to a writable destination, the fields
  after the transformed core coordinates are \<open>dcos = sin ze * cos az'\<close> and
  \<open>dsin = sin ze * sin az'\<close>, each replaced by 0 when its magnitude is below \<open>1e-8\<close> and
  written unchanged otherwise.
\<close>

theorem shower_line_snaps_direction_cosines:
  assumes "is_open (sink s)" and "\<not> failed (sink s)"
  shows "let ze = (90 - altitude (shower_sim arr)) / degrad s;
             az = redang (1.5 * M_PI - redang (azimuth (shower_sim arr) / degrad s));
             dcos = sin ze * cos az;
             dsin = sin ze * sin az;
             F = fmt_of ((sink s)\<lparr>precision := 7, width := 0\<rparr>)
         in written (sink (writeEvent thickx arr info s)) =
              written (sink s) @ map Ch (pad (width (sink s)) ''S'') @
              [Ch CHR '' '', Dbl F (energy (shower_sim arr)),
               Ch CHR '' '', Dbl F (- ycore (shower_sim arr)),
               Ch CHR '' '', Dbl F (- xcore (shower_sim arr)),
               Ch CHR '' '', Dbl F (if \<bar>dcos\<bar> < 0.00000001 then 0 else dcos),
               Ch CHR '' '', Dbl F (if \<bar>dsin\<bar> < 0.00000001 then 0 else dsin),
               Ch CHR '' '', Dbl F (firstint (shower_sim arr))] @
              map Ch '' -1 -1 -1'' @ [Ch (CHR 0x0A)] @
              (if info
               then map Ch ''C '' @
                    [Dbl F (firstint (shower_sim arr)), Ch CHR '' '',
                     (case fdiv (thickx (100 * firstint (shower_sim arr))) (cos ze) of
                        Some v \<Rightarrow> Dbl F v | None \<Rightarrow> NonFinite F),
                     Ch CHR '' ''] @
                    map Ch (int_digits (showpos (sink s)) (shower_id (shower_sim arr))) @
                    [Ch (CHR 0x0A)]
               else [])"
proof -
  have w: "is_open (sink s)" "\<not> failed (sink s)" using assms by auto
  show ?thesis
    unfolding sink_writeEvent Let_def
    by (simp add: shower_line_file_writable [OF w] corsika_line_file_writable fmt_of_def w
        split: option.splits)
qed

theorem shower_line_snaps_direction_cosines_witness:
  "is_open (sink console_emitter) \<and> \<not> failed (sink console_emitter) \<and>
   written (sink (writeEvent (\<lambda>h. h) vertical_shower False console_emitter)) =
     map Ch ''              S'' @
     [Ch CHR '' '',
      Dbl \<lparr>fixed = True, right = True, showpos = False, precision = 7, width = 0\<rparr> 1,
      Ch CHR '' '',
      Dbl \<lparr>fixed = True, right = True, showpos = False, precision = 7, width = 0\<rparr> 0,
      Ch CHR '' '',
      Dbl \<lparr>fixed = True, right = True, showpos = False, precision = 7, width = 0\<rparr> 0,
      Ch CHR '' '',
      Dbl \<lparr>fixed = True, right = True, showpos = False, precision = 7, width = 0\<rparr> 0,
      Ch CHR '' '',
      Dbl \<lparr>fixed = True, right = True, showpos = False, precision = 7, width = 0\<rparr> 0,
      Ch CHR '' '',
      Dbl \<lparr>fixed = True, right = True, showpos = False, precision = 7, width = 0\<rparr> 10] @
     map Ch '' -1 -1 -1'' @ [Ch (CHR 0x0A)]"
  using shower_line_snaps_direction_cosines
    [where s = console_emitter and thickx = "\<lambda>h. h" and arr = vertical_shower and info = False]
  by (simp add: console_emitter_sink ios_init_def vertical_shower_def fmt_of_def pad_15_single
      replicate_14 Let_def)

section \<open>The zenith angle of a photon\<close>

lemma acos_c_sqrt:
  assumes "0 < r" "r \<le> 1"
  shows "Option.bind (sqrt_c r) acos_c = Some (arccos (sqrt r))"
proof -
  have "0 \<le> sqrt r" using assms by simp
  then have lo: "\<not> sqrt r < - 1" by linarith
  have "sqrt r \<le> 1" using assms by simp
  then have hi: "\<not> 1 < sqrt r" by linarith
  have "sqrt_c r = Some (sqrt r)" using assms by (simp add: sqrt_c_def)
  moreover have "acos_c (sqrt r) = Some (arccos (sqrt r))"
    unfolding acos_c_def using lo hi by presburger
  ultimately show ?thesis by simp
qed

text \<open>
  The guard \<open>ze > 0\<close> keeps \<open>sqrt\<close> away from negative numbers, and the root of a number in
  \<open>(0, 1]\<close> is in the domain of \<open>acos\<close>: the zenith angle is always a finite number.
\<close>

lemma photon_zenith:
  "Option.bind (if 1 - (cx * cx + cy * cy) > 0 then sqrt_c (1 - (cx * cx + cy * cy)) else Some 0)
     acos_c
   = Some (arccos (sqrt (max 0 (1 - cx * cx - cy * cy))))"
proof (cases "1 - (cx * cx + cy * cy) > 0")
  case True
  define r where "r = 1 - (cx * cx + cy * cy)"
  have "0 \<le> cx * cx + cy * cy" by simp
  then have r1: "r \<le> 1" unfolding r_def by linarith
  have r0: "0 < r" using True unfolding r_def .
  have m: "max 0 (1 - cx * cx - cy * cy) = r" using r0 unfolding r_def by (simp add: max_def)
  show ?thesis unfolding m using acos_c_sqrt [OF r0 r1] r0 unfolding r_def by simp
next
  case False
  then have "max 0 (1 - cx * cx - cy * cy) = 0" by (simp add: max_def)
  then show ?thesis using False by (simp add: acos_c_def)
qed

lemma writePhotons_unfold:
  "writePhotons bn t s =
     (let ze = arccos (sqrt (max 0 (1 - bunch_cx bn * bunch_cx bn - bunch_cy bn * bunch_cy bn)));
          az = redang (1.5 * M_PI - redang (atan2 (bunch_cy bn) (bunch_cx bn)));
          line = seq (photon_line_file bn t (- bunch_y bn) (- bunch_x bn) (Some ze) az)
      in if bSTDOUT s then s\<lparr>cout := line (cout s)\<rparr> else s\<lparr>of_file := line (of_file s)\<rparr>)"
  unfolding writePhotons_def Let_def photon_zenith
  by (simp add: transformCoord_def Let_def photon_line_same)

section \<open>The offset members\<close>

text \<open>
  C4 as stated: after \<open>writeEvent\<close> the members \<open>xoff\<close> and \<open>yoff\<close> hold the transformed core
  coordinates. For the shower with core \<open>(1, 2)\<close> the members hold \<open>(1, 2)\<close>, and the
  transformed core coordinates are \<open>(-2, -1)\<close>.
\<close>

theorem offsets_not_transformed:
  "(xoff (writeEvent (\<lambda>h. h) offset_shower False console_emitter),
    yoff (writeEvent (\<lambda>h. h) offset_shower False console_emitter)) = (1, 2)
   \<and> snd (transformCoord (azimuth (shower_sim offset_shower) / degrad console_emitter)
            (xcore (shower_sim offset_shower)) (ycore (shower_sim offset_shower))) = (- 2, - 1)
   \<and> (xoff (writeEvent (\<lambda>h. h) offset_shower False console_emitter),
      yoff (writeEvent (\<lambda>h. h) offset_shower False console_emitter))
     \<noteq> snd (transformCoord (azimuth (shower_sim offset_shower) / degrad console_emitter)
            (xcore (shower_sim offset_shower)) (ycore (shower_sim offset_shower)))"
  by (simp add: writeEvent_unfold Let_def transformCoord_def offset_shower_def)

text \<open>
  C4, amended: after \<open>writeEvent\<close> the members \<open>xoff\<close> and \<open>yoff\<close> hold the core coordinates
  of that shower as received, before the frame transform. No operation reads them: the
  result of every operation is the same whatever they hold, up to these two members.
\<close>

theorem offsets_hold_received_core:
  "xoff (writeEvent thickx arr info s) = xcore (shower_sim arr)
   \<and> yoff (writeEvent thickx arr info s) = ycore (shower_sim arr)
   \<and> writeEvent thickx arr info (s\<lparr>xoff := a, yoff := b\<rparr>) = writeEvent thickx arr info s
   \<and> writePhotons bn t (s\<lparr>xoff := a, yoff := b\<rparr>)
       = (writePhotons bn t s)\<lparr>xoff := a, yoff := b\<rparr>
   \<and> writeRunHeader buf1 f (s\<lparr>xoff := a, yoff := b\<rparr>)
       = (writeRunHeader buf1 f s)\<lparr>xoff := a, yoff := b\<rparr>
   \<and> setOutputfile can_create ofile (s\<lparr>xoff := a, yoff := b\<rparr>) =
       (case setOutputfile can_create ofile s of
          Inl (Exited n t) \<Rightarrow> Inl (Exited n (t\<lparr>xoff := a, yoff := b\<rparr>))
        | Inr t \<Rightarrow> Inr (t\<lparr>xoff := a, yoff := b\<rparr>))"
proof -
  have 1: "xoff (writeEvent thickx arr info s) = xcore (shower_sim arr)"
    "yoff (writeEvent thickx arr info s) = ycore (shower_sim arr)"
    by (simp_all add: writeEvent_unfold Let_def)
  have 2: "writeEvent thickx arr info (s\<lparr>xoff := a, yoff := b\<rparr>) = writeEvent thickx arr info s"
    by (simp add: writeEvent_unfold Let_def)
  have 3: "writePhotons bn t (s\<lparr>xoff := a, yoff := b\<rparr>)
             = (writePhotons bn t s)\<lparr>xoff := a, yoff := b\<rparr>"
    by (simp add: writePhotons_unfold Let_def)
  have 4: "writeRunHeader buf1 f (s\<lparr>xoff := a, yoff := b\<rparr>)
             = (writeRunHeader buf1 f s)\<lparr>xoff := a, yoff := b\<rparr>"
    by (simp add: writeRunHeader_def writeRunHeader_file_def writeRunHeader_cout_def)
  have 5: "setOutputfile can_create ofile (s\<lparr>xoff := a, yoff := b\<rparr>) =
       (case setOutputfile can_create ofile s of
          Inl (Exited n t) \<Rightarrow> Inl (Exited n (t\<lparr>xoff := a, yoff := b\<rparr>))
        | Inr t \<Rightarrow> Inr (t\<lparr>xoff := a, yoff := b\<rparr>))"
    by (simp add: setOutputfile_def Let_def)
  show ?thesis using 1 2 3 4 5 by blast
qed

section \<open>The photon line\<close>

lemma sink_writePhotons:
  "sink (writePhotons bn t s) =
     seq (photon_line_file bn t (- bunch_y bn) (- bunch_x bn)
       (Some (arccos (sqrt (max 0 (1 - bunch_cx bn * bunch_cx bn - bunch_cy bn * bunch_cy bn)))))
       (redang (1.5 * M_PI - redang (atan2 (bunch_cy bn) (bunch_cx bn))))) (sink s)"
  by (simp add: writePhotons_unfold sink_def Let_def)


lemma photon_line_file_writable:
  assumes "is_open os" "\<not> failed os"
  shows "seq (photon_line_file bn t a b (Some ze) az) os =
    os\<lparr>showpos := False, precision := 7, width := 0,
       written := written os @ map Ch (pad (width os) ''P'') @
         [Ch CHR '' '', Dbl (fmt_of (os\<lparr>showpos := True, precision := 7, width := 0\<rparr>)) a,
          Ch CHR '' '', Dbl (fmt_of (os\<lparr>showpos := True, precision := 7, width := 0\<rparr>)) b,
          Ch CHR '' '',
          Dbl (fmt_of (os\<lparr>showpos := True, precision := 7, width := 0\<rparr>)) (sin ze * cos az),
          Ch CHR '' '',
          Dbl (fmt_of (os\<lparr>showpos := True, precision := 7, width := 0\<rparr>)) (sin ze * sin az),
          Ch CHR '' '',
          Dbl (fmt_of (os\<lparr>showpos := True, precision := 7, width := 0\<rparr>)) (bunch_zem bn),
          Ch CHR '' '',
          Dbl (fmt_of (os\<lparr>showpos := True, precision := 7, width := 0\<rparr>)) (bunch_ctime bn),
          Ch CHR '' ''] @
         map Ch (int_digits True (to_int (bunch_lambda bn)) @ '' +3 '' @ int_digits True (t + 1)) @
         [Ch (CHR 0x0A)]\<rparr>"
  using assms
  by (simp add: photon_line_file_def stream_defs pad_def int_digits_def nat_digits_small)

lemma nat_digits_400: "nat_digits 400 = ''400''"
  by code_simp

text \<open>
  C10 as stated: the photon line leaves the format state of the destination unchanged.
  On the emitter that has just selected the console, the format state has precision 4
  and width 15 before the photon line, and precision 7 and width 0 after it.
\<close>

theorem photon_line_changes_format_state:
  "fmt_of (sink console_emitter) =
     \<lparr>fixed = True, right = True, showpos = False, precision = 4, width = 15\<rparr>
   \<and> fmt_of (sink (writePhotons vertical_photon 0 console_emitter)) =
     \<lparr>fixed = True, right = True, showpos = False, precision = 7, width = 0\<rparr>
   \<and> fmt_of (sink (writePhotons vertical_photon 0 console_emitter))
     \<noteq> fmt_of (sink console_emitter)"
  by (simp add: sink_writePhotons photon_line_file_writable console_emitter_sink ios_init_def
      fmt_of_def)

text \<open>
  C10, amended: in the photon line that \<open>writePhotons\<close> writes to a writable destination,
  the two direction-cosine fields are \<open>sin ze * cos az'\<close> and \<open>sin ze * sin az'\<close> as
  computed, with no replacement by 0 below \<open>1e-8\<close>. Every field of the line is written
  with the sign flag set, and the flag is unset after the line: the format state is then
  the one before the call with the sign flag unset, precision 7 and width 0 (so it is
  unchanged exactly when the destination already was in that state, as after a shower
  line).
\<close>

theorem photon_line_fields_and_format:
  assumes "is_open (sink s)" and "\<not> failed (sink s)"
  shows "let ze = arccos (sqrt (max 0 (1 - bunch_cx bn * bunch_cx bn - bunch_cy bn * bunch_cy bn)));
             az = redang (1.5 * M_PI - redang (atan2 (bunch_cy bn) (bunch_cx bn)));
             F = fmt_of ((sink s)\<lparr>showpos := True, precision := 7, width := 0\<rparr>)
         in written (sink (writePhotons bn t s)) =
              written (sink s) @ map Ch (pad (width (sink s)) ''P'') @
              [Ch CHR '' '', Dbl F (- bunch_y bn),
               Ch CHR '' '', Dbl F (- bunch_x bn),
               Ch CHR '' '', Dbl F (sin ze * cos az),
               Ch CHR '' '', Dbl F (sin ze * sin az),
               Ch CHR '' '', Dbl F (bunch_zem bn),
               Ch CHR '' '', Dbl F (bunch_ctime bn),
               Ch CHR '' ''] @
              map Ch (int_digits True (to_int (bunch_lambda bn)) @ '' +3 '' @
                      int_digits True (t + 1)) @
              [Ch (CHR 0x0A)]
            \<and> fmt_of (sink (writePhotons bn t s)) =
                fmt_of ((sink s)\<lparr>showpos := False, precision := 7, width := 0\<rparr>)"
proof -
  have w: "is_open (sink s)" "\<not> failed (sink s)" using assms by auto
  show ?thesis
    unfolding sink_writePhotons Let_def
    by (simp add: photon_line_file_writable [OF w] fmt_of_def)
qed

theorem photon_line_fields_and_format_witness:
  "is_open (sink console_emitter) \<and> \<not> failed (sink console_emitter) \<and>
   written (sink (writePhotons vertical_photon 0 console_emitter)) =
     map Ch ''              P'' @
     [Ch CHR '' '',
      Dbl \<lparr>fixed = True, right = True, showpos = True, precision = 7, width = 0\<rparr> (- 2),
      Ch CHR '' '',
      Dbl \<lparr>fixed = True, right = True, showpos = True, precision = 7, width = 0\<rparr> (- 1),
      Ch CHR '' '',
      Dbl \<lparr>fixed = True, right = True, showpos = True, precision = 7, width = 0\<rparr> 0,
      Ch CHR '' '',
      Dbl \<lparr>fixed = True, right = True, showpos = True, precision = 7, width = 0\<rparr> 0,
      Ch CHR '' '',
      Dbl \<lparr>fixed = True, right = True, showpos = True, precision = 7, width = 0\<rparr> 1000,
      Ch CHR '' '',
      Dbl \<lparr>fixed = True, right = True, showpos = True, precision = 7, width = 0\<rparr> 5] @
     map Ch '' +400 +3 +1'' @ [Ch (CHR 0x0A)]
   \<and> fmt_of (sink (writePhotons vertical_photon 0 console_emitter)) =
       \<lparr>fixed = True, right = True, showpos = False, precision = 7, width = 0\<rparr>"
  using photon_line_fields_and_format
    [where s = console_emitter and bn = vertical_photon and t = 0]
  by (simp add: console_emitter_sink ios_init_def vertical_photon_def fmt_of_def pad_15_single
      replicate_14 Let_def int_digits_def to_int_def nat_digits_400 nat_digits_small)

section \<open>Construction\<close>

text \<open>
  C9 as stated: after construction the observation height is 100 exactly when the
  atmosphere identifier is negative. With identifier 0 and an \<open>atmset_\<close> that leaves both
  members as they are, \<open>atmset_\<close> is called once and the observation height is 100 although
  the identifier is not negative.
\<close>

theorem height_100_with_nonnegative_id:
  "observation_height (VGrisu_ctor Pair (ios_init True) ''v1'' 0) = 100
   \<and> atmset_calls (VGrisu_ctor Pair (ios_init True) ''v1'' 0) = [(0, 100)]
   \<and> \<not> (0 :: int) < 0
   \<and> (observation_height (VGrisu_ctor Pair (ios_init True) ''v1'' 0) = 100) \<noteq> ((0 :: int) < 0)"
  by (simp add: VGrisu_ctor_def makeParticleMap_def Let_def)

text \<open>
  C9, amended: after construction with atmosphere identifier \<open>i\<close>, \<open>qeff\<close> is 1. When \<open>i\<close> is
  negative the observation height is 100 and \<open>atmset_\<close> has not been called. When \<open>i\<close> is not
  negative \<open>atmset_\<close> has been called exactly once, with \<open>i\<close> and 100, and the observation
  height and the identifier are what that call left in them. So \<open>atmset_\<close> is not called
  exactly when \<open>i\<close> is negative, and the height is 100 exactly when \<open>i\<close> is negative or the
  call itself leaves 100 there.
\<close>

theorem constructor_defaults:
  "qeff (VGrisu_ctor atmset console v i) = 1
   \<and> (i < 0 \<longrightarrow> observation_height (VGrisu_ctor atmset console v i) = 100
                \<and> atm_id (VGrisu_ctor atmset console v i) = i
                \<and> atmset_calls (VGrisu_ctor atmset console v i) = [])
   \<and> (0 \<le> i \<longrightarrow> atmset_calls (VGrisu_ctor atmset console v i) = [(i, 100)]
                \<and> observation_height (VGrisu_ctor atmset console v i) = snd (atmset i 100)
                \<and> atm_id (VGrisu_ctor atmset console v i) = fst (atmset i 100))
   \<and> (atmset_calls (VGrisu_ctor atmset console v i) = []) = (i < 0)
   \<and> (observation_height (VGrisu_ctor atmset console v i) = 100)
       = (i < 0 \<or> snd (atmset i 100) = 100)"
  by (auto simp add: VGrisu_ctor_def makeParticleMap_def Let_def split: prod.splits)

theorem constructor_defaults_witness:
  "qeff (VGrisu_ctor Pair (ios_init True) ''v1'' (- 1)) = 1
   \<and> observation_height (VGrisu_ctor Pair (ios_init True) ''v1'' (- 1)) = 100
   \<and> atmset_calls (VGrisu_ctor Pair (ios_init True) ''v1'' (- 1)) = []
   \<and> atmset_calls (VGrisu_ctor (\<lambda>i h. (i, 2200)) (ios_init True) ''v1'' 5) = [(5, 100)]
   \<and> observation_height (VGrisu_ctor (\<lambda>i h. (i, 2200)) (ios_init True) ''v1'' 5) = 2200"
  using constructor_defaults [of Pair "ios_init True" "''v1''" "- 1"]
    constructor_defaults [of "\<lambda>i h. (i, 2200)" "ios_init True" "''v1''" 5]
  by simp

text \<open>The conversion factor between degrees and radians is set once and never changed.\<close>

lemma degrad_constructed: "degrad (VGrisu_ctor atmset console v i) = 180 / pi"
  by (simp add: VGrisu_ctor_def makeParticleMap_def Let_def arctan_one split: prod.splits)

lemma degrad_unchanged:
  "degrad (writeEvent thickx arr info s) = degrad s"
  "degrad (writePhotons bn t s) = degrad s"
  "degrad (writeRunHeader buf1 f s) = degrad s"
  "degrad (final (setOutputfile can_create ofile s)) = degrad s"
  by (simp_all add: writeEvent_unfold writePhotons_unfold writeRunHeader_def setOutputfile_def
      Let_def)

section \<open>Sequences of statements\<close>

lemma appends_prims [simp]:
  "appends (put_str s)" "appends (put_int n)" "appends (put_double v)"
  "appends (put_double_opt vo)" "appends endl" "appends (setprecision p)"
  "appends (set_width w)" "appends setf_fixed_right" "appends setf_showpos"
  "appends unsetf_showpos"
  by (simp_all add: appends_def stream_defs split: option.splits)

lemma keeps_writable_prims [simp]:
  "keeps_writable (put_str s)" "keeps_writable (put_int n)" "keeps_writable (put_double v)"
  "keeps_writable (put_double_opt vo)" "keeps_writable endl" "keeps_writable (setprecision p)"
  "keeps_writable (set_width w)" "keeps_writable setf_fixed_right"
  "keeps_writable setf_showpos" "keeps_writable unsetf_showpos"
  by (simp_all add: keeps_writable_def stream_defs split: option.splits)

lemma seq_Nil [simp]: "seq [] os = os"
  by (simp add: seq_def)

lemma seq_Cons: "seq (st # sts) os = seq sts (st os)"
  by (simp add: seq_def)

lemma seq_append: "seq (xs @ ys) os = seq ys (seq xs os)"
  by (simp add: seq_def)

lemma seq_split:
  assumes "n < length sts"
  shows "seq sts os = seq (drop (Suc n) sts) ((sts ! n) (seq (take n sts) os))"
proof -
  have "sts = take n sts @ (sts ! n) # drop (Suc n) sts"
    using assms by (rule id_take_nth_drop)
  then have "seq sts os = seq (take n sts @ (sts ! n) # drop (Suc n) sts) os" by simp
  then show ?thesis by (simp add: seq_append seq_Cons)
qed

lemma list_all_drop: "list_all P xs \<Longrightarrow> list_all P (drop n xs)"
  by (metis append_take_drop_id list_all_append)

lemma appends_seq: "list_all appends sts \<Longrightarrow> appends (seq sts)"
proof (induction sts)
  case Nil
  then show ?case by (simp add: appends_def)
next
  case (Cons st sts)
  then have a: "appends st" "appends (seq sts)" by simp_all
  show ?case unfolding appends_def
  proof
    fix os
    have "prefix (written os) (written (st os))" using a(1) by (simp add: appends_def)
    moreover have "prefix (written (st os)) (written (seq sts (st os)))"
      using a(2) by (simp add: appends_def)
    ultimately show "prefix (written os) (written (seq (st # sts) os))"
      unfolding seq_Cons by (rule prefix_order.trans)
  qed
qed

lemma keeps_writable_seq: "list_all keeps_writable sts \<Longrightarrow> keeps_writable (seq sts)"
proof (induction sts)
  case Nil
  then show ?case by (simp add: keeps_writable_def)
next
  case (Cons st sts)
  then have a: "keeps_writable st" "keeps_writable (seq sts)" by simp_all
  show ?case unfolding keeps_writable_def seq_Cons
    using a unfolding keeps_writable_def by blast
qed

lemma grow_seq:
  assumes "list_all appends sts" "prefix W (written os)"
  shows "prefix W (written (seq sts os))"
  using appends_seq [OF assms(1)] assms(2) unfolding appends_def
  by (meson prefix_order.trans)

lemma writable_seq:
  assumes "list_all keeps_writable sts" "is_open os \<and> \<not> failed os"
  shows "is_open (seq sts os) \<and> \<not> failed (seq sts os)"
  using keeps_writable_seq [OF assms(1)] assms(2) unfolding keeps_writable_def by blast

lemma contains_seq:
  assumes "list_all appends sts" "\<exists>pre post. written os = W @ pre @ line @ post"
  shows "\<exists>pre post. written (seq sts os) = W @ pre @ line @ post"
proof -
  obtain pre post where a: "written os = W @ pre @ line @ post" using assms(2) by blast
  have "prefix (written os) (written (seq sts os))"
    by (rule grow_seq [OF assms(1)]) simp
  then obtain ys where "written (seq sts os) = written os @ ys" by (auto simp: prefix_def)
  then have "written (seq sts os) = W @ pre @ line @ (post @ ys)" using a by simp
  then show ?thesis by blast
qed

lemma line_written:
  assumes "is_open os \<and> \<not> failed os" "prefix W (written os)"
  shows "\<exists>pre post. written (seq [put_str a, endl] os) =
           W @ pre @ (map Ch a @ [Ch (CHR 0x0A)]) @ post"
proof -
  obtain ys where ys: "written os = W @ ys" using assms(2) by (auto simp: prefix_def)
  have "written (seq [put_str a, endl] os) =
          written os @ map Ch (replicate (width os - length a) CHR '' '') @ map Ch a @
          [Ch (CHR 0x0A)]"
    using assms(1) by (simp add: stream_defs pad_def)
  then have "written (seq [put_str a, endl] os) =
          W @ (ys @ map Ch (replicate (width os - length a) CHR '' '')) @
          (map Ch a @ [Ch (CHR 0x0A)]) @ []"
    using ys by simp
  then show ?thesis by blast
qed

lemma put_str_writable:
  assumes "is_open os" "\<not> failed os" "width os = 0"
  shows "written (put_str s os) = written os @ map Ch s"
  using assms by (simp add: stream_defs pad_def)

lemma put_int_width:
  assumes "is_open os" "\<not> failed os"
  shows "width (put_int n os) = 0 \<and> is_open (put_int n os) \<and> \<not> failed (put_int n os)"
  using assms by (simp add: stream_defs)

lemma render_append: "render num (xs @ ys) = render num xs @ render num ys"
  by (simp add: render_def)

lemma render_Ch: "render num (Ch c # xs) = c # render num xs"
  by (simp add: render_def)

section \<open>The run header\<close>

lemma sink_writeRunHeader:
  "sink (writeRunHeader buf1 f s) =
     seq (if bSTDOUT s then writeRunHeader_cout buf1 f s else writeRunHeader_file buf1 f s)
       (sink s)"
  by (simp add: writeRunHeader_def sink_def)

lemma header_file_appends:
  "(\<forall>p. f = Some p \<longrightarrow> appends p) \<Longrightarrow> list_all appends (writeRunHeader_file buf1 f s)"
  by (simp add: writeRunHeader_file_def Let_def transformCoord_def split: option.splits)

lemma header_cout_appends:
  "(\<forall>p. f = Some p \<longrightarrow> appends p) \<Longrightarrow> list_all appends (writeRunHeader_cout buf1 f s)"
  by (simp add: writeRunHeader_cout_def Let_def transformCoord_def split: option.splits)

text \<open>
  The two branches start with the same nine statements. The tenth closes the date: the
  file branch writes \<open>)\<close>, the console branch writes \<open> C)\<close>.
\<close>

lemma header_take9:
  "fVersion s = fVersion s' \<Longrightarrow>
   take 9 (writeRunHeader_file buf1 f s) = take 9 (writeRunHeader_cout buf1 f' s')"
  by (simp add: writeRunHeader_file_def writeRunHeader_cout_def)

lemma header_nth9:
  "writeRunHeader_file buf1 f s ! 9 = put_str '')''"
  "writeRunHeader_cout buf1 f s ! 9 = put_str '' C)''"
  "9 < length (writeRunHeader_file buf1 f s)"
  "9 < length (writeRunHeader_cout buf1 f s)"
  by (simp_all add: writeRunHeader_file_def writeRunHeader_cout_def)

lemma emitters_agree:
  "sink file_emitter = sink console_emitter"
  "fVersion file_emitter = fVersion console_emitter"
  "bSTDOUT console_emitter" "\<not> bSTDOUT file_emitter"
  "is_open (sink console_emitter)" "\<not> failed (sink console_emitter)"
  "particles console_emitter 99 = None"
       apply (simp add: file_emitter_sink console_emitter_sink)
      apply (simp_all add: file_emitter_def console_emitter_def fresh_emitter_def
      setOutputfile_def VGrisu_ctor_def makeParticleMap_def Let_def open_file_def ios_init_def
      sink_def stream_defs)
  done

lemma header_branches_differ_general:
  assumes f: "\<forall>p. f = Some p \<longrightarrow> appends p"
  shows "render num (written (sink (writeRunHeader buf1 f file_emitter)))
     \<noteq> render num (written (sink (writeRunHeader buf1 f console_emitter)))"
proof -
  let ?Lf = "writeRunHeader_file buf1 f file_emitter"
  let ?Lc = "writeRunHeader_cout buf1 f console_emitter"
  let ?os = "sink console_emitter"
  define Y where "Y = seq (take 8 ?Lc) ?os"
  define X where "X = seq (take 9 ?Lc) ?os"
  have w0: "is_open ?os \<and> \<not> failed ?os" by (simp add: emitters_agree)
  have "list_all keeps_writable (take 8 ?Lc)" by (simp add: writeRunHeader_cout_def)
  then have wY: "is_open Y \<and> \<not> failed Y" unfolding Y_def using w0 by (rule writable_seq)
  have "seq (take 9 ?Lc) ?os =
          seq (drop (Suc 8) (take 9 ?Lc)) ((take 9 ?Lc ! 8) (seq (take 8 (take 9 ?Lc)) ?os))"
    by (rule seq_split) (simp add: writeRunHeader_cout_def)
  then have XY: "X = put_int (to_int (buf1 44)) Y"
    unfolding X_def Y_def by (simp add: writeRunHeader_cout_def)
  have wX: "is_open X" "\<not> failed X" "width X = 0"
    unfolding XY using put_int_width [of Y] wY by simp_all
  have Xf: "seq (take 9 ?Lf) ?os = X"
    unfolding X_def using header_take9 [OF emitters_agree(2), of buf1 f f] by simp
  have "seq ?Lf ?os = seq (drop (Suc 9) ?Lf) ((?Lf ! 9) (seq (take 9 ?Lf) ?os))"
    by (rule seq_split) (simp add: header_nth9)
  then have F: "sink (writeRunHeader buf1 f file_emitter) = seq (drop 10 ?Lf) (put_str '')'' X)"
    by (simp add: sink_writeRunHeader emitters_agree header_nth9 Xf)
  have "seq ?Lc ?os = seq (drop (Suc 9) ?Lc) ((?Lc ! 9) (seq (take 9 ?Lc) ?os))"
    by (rule seq_split) (simp add: header_nth9)
  then have C: "sink (writeRunHeader buf1 f console_emitter) =
                  seq (drop 10 ?Lc) (put_str '' C)'' X)"
    by (simp add: sink_writeRunHeader emitters_agree header_nth9 X_def)
  have "prefix (written (put_str '')'' X)) (written (seq (drop 10 ?Lf) (put_str '')'' X)))"
    by (rule grow_seq [OF list_all_drop [OF header_file_appends [OF f]]]) simp
  then obtain ys where
    ys: "written (sink (writeRunHeader buf1 f file_emitter)) = written X @ Ch CHR '')'' # ys"
    unfolding F put_str_writable [OF wX] by (auto simp: prefix_def)
  have "prefix (written (put_str '' C)'' X)) (written (seq (drop 10 ?Lc) (put_str '' C)'' X)))"
    by (rule grow_seq [OF list_all_drop [OF header_cout_appends [OF f]]]) simp
  then obtain zs where
    zs: "written (sink (writeRunHeader buf1 f console_emitter)) = written X @ Ch CHR '' '' # zs"
    unfolding C put_str_writable [OF wX] by (auto simp: prefix_def)
  show ?thesis unfolding ys zs by (simp add: render_append render_Ch)
qed

text \<open>
  C3. The claim is that, for every record kind and every input, the text written to the
  console is character for character the text written to a file. The shower line, the
  additional line and the photon line are the same statements in both branches
  (\<open>shower_line_same\<close>, \<open>corsika_line_same\<close>, \<open>photon_line_same\<close>). The run header is not:
  for every buffer and every rendering of the floating-point fields, the header written by
  an emitter with a file selected differs from the header written by the same emitter with
  the console selected.
\<close>

theorem header_branches_differ:
  "render num (written (sink (writeRunHeader buf1 None file_emitter)))
     \<noteq> render num (written (sink (writeRunHeader buf1 None console_emitter)))"
  by (rule header_branches_differ_general) simp

lemma header_unknown_particle:
  assumes w: "is_open (sink s) \<and> \<not> failed (sink s)"
    and n: "particles s (to_int (buf1 2)) = None"
    and f: "\<forall>p. f = Some p \<longrightarrow> appends p"
  shows "\<exists>pre post. written (sink (writeRunHeader buf1 f s)) =
           written (sink s) @ pre @
           (map Ch (tab @ tab @ tab @ '' Type code for primary particle (kascade ID) '' @ tab @
                    '' unknown particle (for kascade)'') @ [Ch (CHR 0x0A)]) @ post"
proof (cases "bSTDOUT s")
  case True
  have fa: "list_all appends (case f of Some printHeader \<Rightarrow> [printHeader] | None \<Rightarrow> [])"
    using f by (simp split: option.splits)
  show ?thesis
    unfolding sink_writeRunHeader writeRunHeader_cout_def n
    apply (simp only: True if_True option.case seq_append)
    apply (rule contains_seq, simp)
    apply (rule contains_seq, rule fa)
    apply (rule contains_seq, simp add: Let_def transformCoord_def)
    apply (rule contains_seq, simp)
    apply (rule line_written)
     apply (rule writable_seq [OF _ w], simp)
    apply (rule grow_seq, simp, simp)
    done
next
  case False
  have fa: "list_all appends (case f of Some printHeader \<Rightarrow> [printHeader] | None \<Rightarrow> [])"
    using f by (simp split: option.splits)
  show ?thesis
    unfolding sink_writeRunHeader writeRunHeader_file_def n
    apply (simp only: False if_False option.case seq_append)
    apply (rule contains_seq, simp)
    apply (rule contains_seq, rule fa)
    apply (rule contains_seq, simp add: Let_def transformCoord_def)
    apply (rule contains_seq, simp)
    apply (rule line_written)
     apply (rule writable_seq [OF _ w], simp)
    apply (rule grow_seq, simp, simp)
    done
qed

lemma ctor_particles:
  "particles (VGrisu_ctor atmset console v i) =
     [1 \<mapsto> 1, 2 \<mapsto> 2, 3 \<mapsto> 3, 5 \<mapsto> 4, 6 \<mapsto> 5, 7 \<mapsto> 6, 8 \<mapsto> 7, 9 \<mapsto> 8, 11 \<mapsto> 9, 12 \<mapsto> 10,
      10 \<mapsto> 11, 16 \<mapsto> 12, 14 \<mapsto> 13, 13 \<mapsto> 14]"
  by (simp add: VGrisu_ctor_def makeParticleMap_def Let_def split: prod.splits)

text \<open>
  C8. The particle map built at construction maps 1 to 1 and 14 to 13, and has no entry
  for 99, for 4 or for 15: its keys are 1 to 3, 5 to 14 and 16. A lookup is a total
  function with an empty result for a code that is absent. When the primary's code is
  absent, the run header written to a writable destination contains the line with the
  annotation "unknown particle (for kascade)" (whatever an appending \<open>printHeader\<close> adds),
  and \<open>writeRunHeader\<close> has no outcome other than the next state.
\<close>

theorem particle_map_lookup:
  "particles (VGrisu_ctor atmset console v i) 1 = Some 1
   \<and> particles (VGrisu_ctor atmset console v i) 14 = Some 13
   \<and> particles (VGrisu_ctor atmset console v i) 99 = None
   \<and> particles (VGrisu_ctor atmset console v i) 4 = None
   \<and> particles (VGrisu_ctor atmset console v i) 15 = None
   \<and> dom (particles (VGrisu_ctor atmset console v i))
       = {1, 2, 3, 5, 6, 7, 8, 9, 10, 11, 12, 13, 14, 16}
   \<and> (is_open (sink s) \<and> \<not> failed (sink s) \<and> particles s (to_int (buf1 2)) = None
        \<and> (\<forall>p. f = Some p \<longrightarrow> appends p) \<longrightarrow>
      (\<exists>pre post. written (sink (writeRunHeader buf1 f s)) =
           written (sink s) @ pre @
           (map Ch (tab @ tab @ tab @ '' Type code for primary particle (kascade ID) '' @ tab @
                    '' unknown particle (for kascade)'') @ [Ch (CHR 0x0A)]) @ post))"
proof -
  have "dom (particles (VGrisu_ctor atmset console v i))
          = {1, 2, 3, 5, 6, 7, 8, 9, 10, 11, 12, 13, 14, 16}"
    unfolding ctor_particles by auto
  then show ?thesis
    using header_unknown_particle [of s buf1 f] by (simp add: ctor_particles)
qed

theorem particle_map_lookup_witness:
  "particles fresh_emitter 99 = None
   \<and> is_open (sink console_emitter) \<and> \<not> failed (sink console_emitter)
   \<and> particles console_emitter (to_int 99) = None
   \<and> (\<exists>pre post. written (sink (writeRunHeader (\<lambda>i. 99) None console_emitter)) =
           written (sink console_emitter) @ pre @
           (map Ch (tab @ tab @ tab @ '' Type code for primary particle (kascade ID) '' @ tab @
                    '' unknown particle (for kascade)'') @ [Ch (CHR 0x0A)]) @ post)"
  using particle_map_lookup
    [where atmset = Pair and console = "ios_init True" and v = "''v1''" and i = "- 1"
       and s = console_emitter and ?buf1.0 = "\<lambda>i. 99" and f = None]
  by (simp add: emitters_agree to_int_def fresh_emitter_def)

section \<open>Selecting the destination\<close>











end
